theory Spec2Isabelle
  imports Main
begin

section \<open>The MCP tool-listing client (go-client.go)\<close>

text \<open>
  The program is one function, \<^verbatim>\<open>main\<close>. It parses one flag, logs the target URL,
  creates an SSE transport, creates an MCP client on it, defers the client's
  \<^verbatim>\<open>Close\<close>, asks for the tool list, and prints one record per tool on standard
  output. Every failure goes through \<^verbatim>\<open>log.Fatalf\<close>.

  The external calls (the go-mcp library, the clock, the two output streams) are
  parameters of a run, collected in the record \<open>env\<close>; the behaviour of a run is the
  chronological list of the calls \<^verbatim>\<open>main\<close> makes on them, and the exit code.
  The model covers the runs in which \<^verbatim>\<open>flag.Parse\<close> returns (a command line it
  rejects ends the process inside \<^verbatim>\<open>flag.Parse\<close>, before the first statement
  below), in which each library call returns a value or an error, and which no signal
  ends. The one signal the program can bring on itself, \<^verbatim>\<open>SIGPIPE\<close> from a write on a
  broken pipe, is added to the run in the subsection on broken pipes.
\<close>

subsection \<open>Data\<close>

text \<open>A Go \<^verbatim>\<open>error\<close> is read only through \<^verbatim>\<open>%v\<close>, which prints its \<^verbatim>\<open>Error()\<close> text.\<close>

type_synonym error = string

text \<open>The two fields of \<^verbatim>\<open>protocol.Tool\<close> that \<^verbatim>\<open>main\<close> reads, and the result of
  \<^verbatim>\<open>ListTools\<close> that carries them.\<close>

record Tool =
  Name :: string
  Description :: string

record ListToolsResult =
  Tools :: "Tool list"

text \<open>Handles of the library: opaque to \<^verbatim>\<open>main\<close>, told apart by a number.\<close>

datatype transport = SSEClientTransport nat

datatype client = Client nat

text \<open>\<^verbatim>\<open>os.Stdout\<close> and \<^verbatim>\<open>os.Stderr\<close>.\<close>

datatype stream = Stdout | Stderr

text \<open>
  What a \<^verbatim>\<open>Write\<close> on a stream answers: \<open>None\<close> when all the bytes were written and
  the error is nil, \<open>Some n\<close> when it returns an error after \<open>n\<close> bytes.
\<close>

type_synonym write_result = "nat option"

text \<open>
  The world of one run. \<open>url_flag\<close> is the value given to \<^verbatim>\<open>-url\<close> on the command
  line, if any. \<open>now\<close> is the date and time text that the standard logger puts in
  front of a record, and \<open>Write\<close> the answer of a stream; both depend on the moment,
  counted as the number of calls made before.
\<close>

record env =
  url_flag :: "string option"
  now :: "nat \<Rightarrow> string"
  Write :: "stream \<Rightarrow> nat \<Rightarrow> write_result"
  NewSSEClientTransport :: "string \<Rightarrow> error + transport"
  NewClient :: "transport \<Rightarrow> error + client"
  ListTools :: "client \<Rightarrow> error + ListToolsResult"

text \<open>The calls \<^verbatim>\<open>main\<close> makes, as they are observed from outside.\<close>

datatype event =
    Wrote stream string write_result
  | Called_NewSSEClientTransport string
  | Called_NewClient transport
  | Called_ListTools client
  | Called_Close client

text \<open>
  The state of the running \<^verbatim>\<open>main\<close>: the calls made so far, oldest first, and the
  stack of deferred calls of \<^verbatim>\<open>main\<close>'s frame, newest first. The only deferred call
  in the program is \<^verbatim>\<open>mcpClient.Close()\<close>, so a deferred call is the client it closes.
\<close>

record state =
  events :: "event list"
  deferred :: "client list"

text \<open>How the body of \<^verbatim>\<open>main\<close> ends: it returns, or \<^verbatim>\<open>os.Exit(code)\<close> was called.\<close>

datatype control = Returns | Exits int

text \<open>What is left of a run: the calls in order and the exit code of the process.\<close>

record run =
  trace :: "event list"
  exit_code :: int

subsection \<open>The log package\<close>

definition newline :: char where
  "newline = CHR 0x0A"

text \<open>
  \<^verbatim>\<open>log.Logger\<close>: the destination, the prefix and the flags. Of the flags, the
  program uses \<^verbatim>\<open>0\<close> (its own logger) and \<^verbatim>\<open>LstdFlags\<close> (the standard logger).
\<close>

record Logger =
  out :: stream
  prefix :: string
  flag :: nat

definition Ldate :: nat where
  "Ldate = 1"
definition Ltime :: nat where
  "Ltime = 2"
definition Lmicroseconds :: nat where
  "Lmicroseconds = 4"
definition LstdFlags :: nat where
  "LstdFlags = Ldate + Ltime"

definition log_New :: "stream \<Rightarrow> string \<Rightarrow> nat \<Rightarrow> Logger" where
  "log_New w p f = \<lparr>out = w, prefix = p, flag = f\<rparr>"

text \<open>The standard logger: \<^verbatim>\<open>log.New(os.Stderr, "", LstdFlags)\<close>.\<close>

definition std :: Logger where
  "std = log_New Stderr [] LstdFlags"

text \<open>
  \<^verbatim>\<open>formatHeader\<close>: the prefix, then the date and time when one of the date, time or
  microsecond flags is set. (The file-name flags and \<^verbatim>\<open>Lmsgprefix\<close> are set by neither
  logger of the program and are left out.)
\<close>

definition formatHeader :: "Logger \<Rightarrow> string \<Rightarrow> string" where
  "formatHeader l t =
     prefix l @ (if flag l mod (2 * Lmicroseconds) = 0 then [] else t)"

text \<open>
  \<^verbatim>\<open>(*Logger).output\<close>: header, message, a newline when the buffer does not end in
  one, then a single \<^verbatim>\<open>Write\<close> on the destination, whose error is returned.
\<close>

definition terminated :: "string \<Rightarrow> string" where
  "terminated buf =
     (if buf = [] then buf @ [newline]
      else if last buf = newline then buf
      else buf @ [newline])"

definition Logger_output :: "env \<Rightarrow> Logger \<Rightarrow> string \<Rightarrow> state \<Rightarrow> state \<times> write_result" where
  "Logger_output e l msg s =
     (let moment = length (events s);
          buf = terminated (formatHeader l (now e moment) @ msg);
          err = Write e (out l) moment
      in (s\<lparr>events := events s @ [Wrote (out l) buf err]\<rparr>, err))"

text \<open>\<^verbatim>\<open>(*Logger).Printf\<close> calls \<^verbatim>\<open>output\<close> and drops the error it returns.\<close>

definition Logger_Printf :: "env \<Rightarrow> Logger \<Rightarrow> string \<Rightarrow> state \<Rightarrow> state" where
  "Logger_Printf e l msg s = fst (Logger_output e l msg s)"

text \<open>\<^verbatim>\<open>log.Printf\<close> is \<^verbatim>\<open>Printf\<close> of the standard logger.\<close>

definition log_Printf :: "env \<Rightarrow> string \<Rightarrow> state \<Rightarrow> state" where
  "log_Printf e msg s = Logger_Printf e std msg s"

text \<open>
  \<^verbatim>\<open>log.Fatalf\<close> writes the record on the standard logger and calls \<^verbatim>\<open>os.Exit(1)\<close>.
  \<^verbatim>\<open>os.Exit\<close> ends the process at once: the caller's deferred calls stay where
  they are.
\<close>

definition log_Fatalf :: "env \<Rightarrow> string \<Rightarrow> state \<Rightarrow> state \<times> control" where
  "log_Fatalf e msg s = (fst (Logger_output e std msg s), Exits 1)"

subsection \<open>The program\<close>

text \<open>An external call is recorded when it is made.\<close>

definition call :: "event \<Rightarrow> state \<Rightarrow> state" where
  "call ev s = s\<lparr>events := events s @ [ev]\<rparr>"

text \<open>\<^verbatim>\<open>defer mcpClient.Close()\<close> pushes the call on the frame's stack.\<close>

definition defer_Close :: "client \<Rightarrow> state \<Rightarrow> state" where
  "defer_Close c s = s\<lparr>deferred := c # deferred s\<rparr>"

text \<open>When a function returns, its deferred calls run, the last deferred first.\<close>

function run_deferred :: "state \<Rightarrow> state" where
  "run_deferred s =
     (case deferred s of
        [] \<Rightarrow> s
      | c # cs \<Rightarrow> run_deferred (call (Called_Close c) (s\<lparr>deferred := cs\<rparr>)))"
  by pat_completeness auto
termination
  by (relation "measure (\<lambda>s. length (deferred s))") (auto simp: call_def)

text \<open>The default of the \<^verbatim>\<open>url\<close> flag, and the value \<^verbatim>\<open>flag.Parse\<close> leaves in \<^verbatim>\<open>mcpURL\<close>.\<close>

definition default_url :: string where
  "default_url = ''https://mcp-td1.swormlab.com/sse''"

definition mcpURL :: "env \<Rightarrow> string" where
  "mcpURL e = (case url_flag e of None \<Rightarrow> default_url | Some u \<Rightarrow> u)"

text \<open>The argument of the print loop: \<^verbatim>\<open>"Name: %s Description: %s\n"\<close>.\<close>

definition tool_line :: "Tool \<Rightarrow> string" where
  "tool_line tool = ''Name: '' @ Name tool @ '' Description: '' @ Description tool @ [newline]"

text \<open>\<^verbatim>\<open>for _, tool := range tools.Tools { logger.Printf(...) }\<close>\<close>

fun print_tools :: "env \<Rightarrow> Logger \<Rightarrow> Tool list \<Rightarrow> state \<Rightarrow> state" where
  "print_tools e logger [] s = s"
| "print_tools e logger (tool # rest) s =
     print_tools e logger rest (Logger_Printf e logger (tool_line tool) s)"

text \<open>The body of \<^verbatim>\<open>main\<close>, statement by statement.\<close>

definition main_body :: "env \<Rightarrow> state \<Rightarrow> state \<times> control" where
  "main_body e s0 =
     (let s1 = log_Printf e (''Connecting to MCP server: '' @ mcpURL e) s0;
          s2 = call (Called_NewSSEClientTransport (mcpURL e)) s1
      in case NewSSEClientTransport e (mcpURL e) of
           Inl err \<Rightarrow> log_Fatalf e (''Failed to create transport client: '' @ err) s2
         | Inr transportClient \<Rightarrow>
             (let s3 = call (Called_NewClient transportClient) s2
              in case NewClient e transportClient of
                   Inl err \<Rightarrow> log_Fatalf e (''Failed to create MCP client: '' @ err) s3
                 | Inr mcpClient \<Rightarrow>
                     (let s4 = defer_Close mcpClient s3;
                          s5 = call (Called_ListTools mcpClient) s4
                      in case ListTools e mcpClient of
                           Inl err \<Rightarrow> log_Fatalf e (''Failed to list tools: '' @ err) s5
                         | Inr tools \<Rightarrow>
                             (let logger = log_New Stdout [] 0
                              in (print_tools e logger (Tools tools) s5, Returns)))))"

text \<open>
  The process: \<^verbatim>\<open>main\<close> starts with no call made and nothing deferred. When its body
  returns, the deferred calls run and the process exits with code 0; when the body
  called \<^verbatim>\<open>os.Exit\<close>, the process ends there with that code.
\<close>

definition initial :: state where
  "initial = \<lparr>events = [], deferred = []\<rparr>"

definition main :: "env \<Rightarrow> run" where
  "main e =
     (case main_body e initial of
        (s, Returns) \<Rightarrow> \<lparr>trace = events (run_deferred s), exit_code = 0\<rparr>
      | (s, Exits code) \<Rightarrow> \<lparr>trace = events s, exit_code = code\<rparr>)"

subsection \<open>Observations on a trace\<close>

text \<open>The buffers handed to \<^verbatim>\<open>Write\<close> on a stream, in order.\<close>

fun writes_to :: "stream \<Rightarrow> event list \<Rightarrow> string list" where
  "writes_to w [] = []"
| "writes_to w (Wrote w' buf r # evs) =
     (if w' = w then buf # writes_to w evs else writes_to w evs)"
| "writes_to w (_ # evs) = writes_to w evs"

text \<open>The bytes a stream received: all of a buffer, or the part before the error.\<close>

fun accepted :: "string \<Rightarrow> write_result \<Rightarrow> string" where
  "accepted buf None = buf"
| "accepted buf (Some n) = take n buf"

fun content :: "stream \<Rightarrow> event list \<Rightarrow> string" where
  "content w [] = []"
| "content w (Wrote w' buf r # evs) =
     (if w' = w then accepted buf r @ content w evs else content w evs)"
| "content w (_ # evs) = content w evs"


text \<open>How often the list was requested, and how often a client was closed.\<close>

fun ListTools_calls :: "event list \<Rightarrow> nat" where
  "ListTools_calls [] = 0"
| "ListTools_calls (Called_ListTools c # evs) = Suc (ListTools_calls evs)"
| "ListTools_calls (_ # evs) = ListTools_calls evs"

fun Close_calls :: "event list \<Rightarrow> nat" where
  "Close_calls [] = 0"
| "Close_calls (Called_Close c # evs) = Suc (Close_calls evs)"
| "Close_calls (_ # evs) = Close_calls evs"

subsection \<open>Broken pipes\<close>

text \<open>
  \<^verbatim>\<open>os.File.Write\<close> does not return every error. When a write on file descriptor 1 or
  2 fails with \<^verbatim>\<open>EPIPE\<close>, the Go runtime raises \<^verbatim>\<open>SIGPIPE\<close>; the program installs no
  handler, so the process dies inside the write. \<open>epipe\<close> tells, for a stream and a
  moment, whether the error of a failing write there is \<^verbatim>\<open>EPIPE\<close>.
\<close>

definition raises_SIGPIPE :: "(stream \<Rightarrow> nat \<Rightarrow> bool) \<Rightarrow> env \<Rightarrow> stream \<Rightarrow> nat \<Rightarrow> bool" where
  "raises_SIGPIPE epipe e w moment = (Write e w moment \<noteq> None \<and> epipe w moment)"

text \<open>How a process ends: with an exit code, or killed by the signal.\<close>

datatype ending = Exited int | Killed_by_SIGPIPE

text \<open>How the body of \<^verbatim>\<open>main\<close> ends when the signal is taken into account.\<close>

datatype flow = Returned | Exited_with int | Killed

text \<open>What is left of such a run.\<close>

record fate =
  calls :: "event list"
  ending :: ending

text \<open>
  \<^verbatim>\<open>Printf\<close> of a logger with the signal: the record is handed to the stream as
  before; the answer says whether the process died in the write.
\<close>

definition Logger_Printf_sig ::
    "(stream \<Rightarrow> nat \<Rightarrow> bool) \<Rightarrow> env \<Rightarrow> Logger \<Rightarrow> string \<Rightarrow> state \<Rightarrow> state \<times> bool" where
  "Logger_Printf_sig epipe e l msg s =
     (Logger_Printf e l msg s, raises_SIGPIPE epipe e (out l) (length (events s)))"

text \<open>\<^verbatim>\<open>log.Fatalf\<close>: the process dies in the write, or exits with code 1 after it.\<close>

definition log_Fatalf_sig ::
    "(stream \<Rightarrow> nat \<Rightarrow> bool) \<Rightarrow> env \<Rightarrow> string \<Rightarrow> state \<Rightarrow> state \<times> flow" where
  "log_Fatalf_sig epipe e msg s =
     (case Logger_Printf_sig epipe e std msg s of
        (s', True) \<Rightarrow> (s', Killed)
      | (s', False) \<Rightarrow> (s', Exited_with 1))"

text \<open>The print loop: it stops at the record whose write kills the process.\<close>

fun print_tools_sig ::
    "(stream \<Rightarrow> nat \<Rightarrow> bool) \<Rightarrow> env \<Rightarrow> Logger \<Rightarrow> Tool list \<Rightarrow> state \<Rightarrow> state \<times> bool" where
  "print_tools_sig epipe e logger [] s = (s, False)"
| "print_tools_sig epipe e logger (tool # rest) s =
     (case Logger_Printf_sig epipe e logger (tool_line tool) s of
        (s', True) \<Rightarrow> (s', True)
      | (s', False) \<Rightarrow> print_tools_sig epipe e logger rest s')"

text \<open>The body of \<^verbatim>\<open>main\<close> and the process, statement by statement as above.\<close>

definition main_body_sig :: "(stream \<Rightarrow> nat \<Rightarrow> bool) \<Rightarrow> env \<Rightarrow> state \<Rightarrow> state \<times> flow" where
  "main_body_sig epipe e s0 =
     (case Logger_Printf_sig epipe e std (''Connecting to MCP server: '' @ mcpURL e) s0 of
        (s1, True) \<Rightarrow> (s1, Killed)
      | (s1, False) \<Rightarrow>
          (let s2 = call (Called_NewSSEClientTransport (mcpURL e)) s1
           in case NewSSEClientTransport e (mcpURL e) of
                Inl err \<Rightarrow>
                  log_Fatalf_sig epipe e (''Failed to create transport client: '' @ err) s2
              | Inr transportClient \<Rightarrow>
                  (let s3 = call (Called_NewClient transportClient) s2
                   in case NewClient e transportClient of
                        Inl err \<Rightarrow>
                          log_Fatalf_sig epipe e (''Failed to create MCP client: '' @ err) s3
                      | Inr mcpClient \<Rightarrow>
                          (let s4 = defer_Close mcpClient s3;
                               s5 = call (Called_ListTools mcpClient) s4
                           in case ListTools e mcpClient of
                                Inl err \<Rightarrow>
                                  log_Fatalf_sig epipe e (''Failed to list tools: '' @ err) s5
                              | Inr tools \<Rightarrow>
                                  (let logger = log_New Stdout [] 0
                                   in case print_tools_sig epipe e logger (Tools tools) s5 of
                                        (s6, True) \<Rightarrow> (s6, Killed)
                                      | (s6, False) \<Rightarrow> (s6, Returned))))))"

definition main_sig :: "(stream \<Rightarrow> nat \<Rightarrow> bool) \<Rightarrow> env \<Rightarrow> fate" where
  "main_sig epipe e =
     (case main_body_sig epipe e initial of
        (s, Returned) \<Rightarrow> \<lparr>calls = events (run_deferred s), ending = Exited 0\<rparr>
      | (s, Exited_with code) \<Rightarrow> \<lparr>calls = events s, ending = Exited code\<rparr>
      | (s, Killed) \<Rightarrow> \<lparr>calls = events s, ending = Killed_by_SIGPIPE\<rparr>)"

subsection \<open>Stub servers\<close>

text \<open>
  A world in which the three library calls answer as given, whatever their argument,
  the streams answer as given, the clock stands still and no \<^verbatim>\<open>-url\<close> is passed.
\<close>

definition stub :: "(error + transport) \<Rightarrow> (error + client) \<Rightarrow> (error + ListToolsResult) \<Rightarrow>
    (stream \<Rightarrow> nat \<Rightarrow> write_result) \<Rightarrow> env" where
  "stub tr cl ls wr =
     \<lparr>url_flag = None, now = (\<lambda>moment. ''2025/06/01 12:00:00 ''), Write = wr,
      NewSSEClientTransport = (\<lambda>url. tr), NewClient = (\<lambda>t. cl), ListTools = (\<lambda>c. ls)\<rparr>"

text \<open>Streams that take every byte, and a standard output that takes none.\<close>

definition writable :: "stream \<Rightarrow> nat \<Rightarrow> write_result" where
  "writable w moment = None"

definition stdout_full :: "stream \<Rightarrow> nat \<Rightarrow> write_result" where
  "stdout_full w moment = (case w of Stdout \<Rightarrow> Some 0 | Stderr \<Rightarrow> None)"

text \<open>Runs against stub servers: one per way the run can go.\<close>

definition bad_url_run :: env where
  "bad_url_run = stub (Inl ''invalid URL'') (Inl []) (Inl []) writable"

definition refused_run :: env where
  "refused_run = stub (Inr (SSEClientTransport 0)) (Inl ''connection refused'') (Inl []) writable"

definition list_error_run :: env where
  "list_error_run = stub (Inr (SSEClientTransport 0)) (Inr (Client 0)) (Inl ''EOF'') writable"

definition two_tools :: ListToolsResult where
  "two_tools = \<lparr>Tools = [\<lparr>Name = ''A'', Description = ''d1''\<rparr>,
                         \<lparr>Name = ''B'', Description = ''d2''\<rparr>]\<rparr>"

definition two_tools_run :: env where
  "two_tools_run = stub (Inr (SSEClientTransport 0)) (Inr (Client 0)) (Inr two_tools) writable"

definition no_tools_run :: env where
  "no_tools_run = stub (Inr (SSEClientTransport 0)) (Inr (Client 0)) (Inr \<lparr>Tools = []\<rparr>) writable"

definition full_disk_run :: env where
  "full_disk_run = stub (Inr (SSEClientTransport 0)) (Inr (Client 0)) (Inr two_tools) stdout_full"



text \<open>Pipes: none broken, and a standard output whose reader has gone.\<close>

definition no_pipe_broken :: "stream \<Rightarrow> nat \<Rightarrow> bool" where
  "no_pipe_broken w moment = False"

definition stdout_pipe_broken :: "stream \<Rightarrow> nat \<Rightarrow> bool" where
  "stdout_pipe_broken w moment = (case w of Stdout \<Rightarrow> True | Stderr \<Rightarrow> False)"

section \<open>How a run goes\<close>

text \<open>
  Observations distribute over the concatenation of traces; the print loop adds one
  write on standard output per tool and nothing else; and \<^verbatim>\<open>main\<close> has four
  ways to go, each with its trace.
\<close>


lemma writes_to_append: "writes_to w (xs @ ys) = writes_to w xs @ writes_to w ys"
  by (induction w xs rule: writes_to.induct) auto

lemma content_append: "content w (xs @ ys) = content w xs @ content w ys"
  by (induction w xs rule: content.induct) auto

lemma ListTools_calls_append:
  "ListTools_calls (xs @ ys) = ListTools_calls xs + ListTools_calls ys"
  by (induction xs rule: ListTools_calls.induct) auto

lemma Close_calls_append: "Close_calls (xs @ ys) = Close_calls xs + Close_calls ys"
  by (induction xs rule: Close_calls.induct) auto


lemma terminated_tool_line: "terminated (tool_line t) = tool_line t"
  by (simp add: terminated_def tool_line_def)

lemma Printf_stdout:
  "Logger_Printf e (log_New Stdout [] 0) (tool_line t) s =
     s\<lparr>events := events s @ [Wrote Stdout (tool_line t) (Write e Stdout (length (events s)))]\<rparr>"
  by (simp add: Logger_Printf_def Logger_output_def Let_def log_New_def formatHeader_def
      terminated_tool_line)

lemma std_output:
  "fst (Logger_output e std msg s) =
     s\<lparr>events := events s @
        [Wrote Stderr (terminated (now e (length (events s)) @ msg)) (Write e Stderr (length (events s)))]\<rparr>"
  by (simp add: Logger_output_def Let_def std_def log_New_def formatHeader_def
      LstdFlags_def Ldate_def Ltime_def Lmicroseconds_def)

lemma print_tools_deferred: "deferred (print_tools e l ts s) = deferred s"
  by (induction ts arbitrary: s) (simp_all add: Logger_Printf_def Logger_output_def Let_def)

lemma print_tools_stdout:
  "writes_to Stdout (events (print_tools e (log_New Stdout [] 0) ts s)) =
     writes_to Stdout (events s) @ map tool_line ts"
  by (induction ts arbitrary: s) (simp_all add: Printf_stdout writes_to_append)

lemma print_tools_stderr:
  "writes_to Stderr (events (print_tools e (log_New Stdout [] 0) ts s)) =
     writes_to Stderr (events s)"
  by (induction ts arbitrary: s) (simp_all add: Printf_stdout writes_to_append)

lemma print_tools_content:
  "\<forall>moment. Write e Stdout moment = None \<Longrightarrow>
   content Stdout (events (print_tools e (log_New Stdout [] 0) ts s)) =
     content Stdout (events s) @ concat (map tool_line ts)"
  by (induction ts arbitrary: s) (simp_all add: Printf_stdout content_append)

lemma print_tools_ListTools_calls:
  "ListTools_calls (events (print_tools e (log_New Stdout [] 0) ts s)) =
     ListTools_calls (events s)"
  by (induction ts arbitrary: s) (simp_all add: Printf_stdout ListTools_calls_append)

lemma print_tools_Close_calls:
  "Close_calls (events (print_tools e (log_New Stdout [] 0) ts s)) = Close_calls (events s)"
  by (induction ts arbitrary: s) (simp_all add: Printf_stdout Close_calls_append)

lemma main_transport_fails:
  assumes "NewSSEClientTransport e (mcpURL e) = Inl err"
  shows "main e =
    \<lparr>trace = [Wrote Stderr (terminated (now e 0 @ ''Connecting to MCP server: '' @ mcpURL e))
                 (Write e Stderr 0),
              Called_NewSSEClientTransport (mcpURL e),
              Wrote Stderr (terminated (now e 2 @ ''Failed to create transport client: '' @ err))
                 (Write e Stderr 2)],
      exit_code = 1\<rparr>"
  using assms
  by (simp add: main_def main_body_def Let_def log_Printf_def Logger_Printf_def log_Fatalf_def
      std_output call_def initial_def eval_nat_numeral)

lemma main_client_fails:
  assumes "NewSSEClientTransport e (mcpURL e) = Inr t" "NewClient e t = Inl err"
  shows "main e =
    \<lparr>trace = [Wrote Stderr (terminated (now e 0 @ ''Connecting to MCP server: '' @ mcpURL e))
                 (Write e Stderr 0),
              Called_NewSSEClientTransport (mcpURL e),
              Called_NewClient t,
              Wrote Stderr (terminated (now e 3 @ ''Failed to create MCP client: '' @ err))
                 (Write e Stderr 3)],
      exit_code = 1\<rparr>"
  using assms
  by (simp add: main_def main_body_def Let_def log_Printf_def Logger_Printf_def log_Fatalf_def
      std_output call_def initial_def eval_nat_numeral)

lemma main_list_fails:
  assumes "NewSSEClientTransport e (mcpURL e) = Inr t" "NewClient e t = Inr c"
    "ListTools e c = Inl err"
  shows "main e =
    \<lparr>trace = [Wrote Stderr (terminated (now e 0 @ ''Connecting to MCP server: '' @ mcpURL e))
                 (Write e Stderr 0),
              Called_NewSSEClientTransport (mcpURL e),
              Called_NewClient t,
              Called_ListTools c,
              Wrote Stderr (terminated (now e 4 @ ''Failed to list tools: '' @ err))
                 (Write e Stderr 4)],
      exit_code = 1\<rparr>"
  using assms
  by (simp add: main_def main_body_def Let_def log_Printf_def Logger_Printf_def log_Fatalf_def
      std_output call_def initial_def defer_Close_def eval_nat_numeral)

lemma main_success:
  assumes "NewSSEClientTransport e (mcpURL e) = Inr t" "NewClient e t = Inr c"
    "ListTools e c = Inr r"
  shows "main e =
    \<lparr>trace = events (print_tools e (log_New Stdout [] 0) (Tools r)
               \<lparr>events =
                  [Wrote Stderr (terminated (now e 0 @ ''Connecting to MCP server: '' @ mcpURL e))
                     (Write e Stderr 0),
                   Called_NewSSEClientTransport (mcpURL e),
                   Called_NewClient t,
                   Called_ListTools c],
                deferred = [c]\<rparr>) @ [Called_Close c],
      exit_code = 0\<rparr>"
  using assms
  by (simp add: main_def main_body_def Let_def log_Printf_def Logger_Printf_def
      std_output call_def initial_def defer_Close_def print_tools_deferred)




lemma main_success_stdout:
  assumes "NewSSEClientTransport e (mcpURL e) = Inr t" and "NewClient e t = Inr c"
    and "ListTools e c = Inr r"
  shows "writes_to Stdout (trace (main e)) = map tool_line (Tools r)"
  by (simp add: main_success [OF assms] writes_to_append print_tools_stdout)

lemma main_success_stderr:
  assumes "NewSSEClientTransport e (mcpURL e) = Inr t" and "NewClient e t = Inr c"
    and "ListTools e c = Inr r"
  shows "writes_to Stderr (trace (main e)) =
           [terminated (now e 0 @ ''Connecting to MCP server: '' @ mcpURL e)]"
  by (simp add: main_success [OF assms] writes_to_append print_tools_stderr)

lemma main_success_content:
  assumes "NewSSEClientTransport e (mcpURL e) = Inr t" and "NewClient e t = Inr c"
    and "ListTools e c = Inr r" and "\<forall>moment. Write e Stdout moment = None"
  shows "content Stdout (trace (main e)) = concat (map tool_line (Tools r))"
  by (simp add: main_success [OF assms(1-3)] content_append print_tools_content [OF assms(4)])

lemma main_success_calls:
  assumes "NewSSEClientTransport e (mcpURL e) = Inr t" and "NewClient e t = Inr c"
    and "ListTools e c = Inr r"
  shows "ListTools_calls (trace (main e)) = 1" and "Close_calls (trace (main e)) = 1"
    and "exit_code (main e) = 0"
  by (simp_all add: main_success [OF assms] ListTools_calls_append Close_calls_append
      print_tools_ListTools_calls print_tools_Close_calls)

lemma ListTools_calls_le_1: "ListTools_calls (trace (main e)) \<le> 1"
proof (cases "NewSSEClientTransport e (mcpURL e)")
  case (Inl err)
  then show ?thesis by (simp add: main_transport_fails)
next
  case transport: (Inr t)
  show ?thesis
  proof (cases "NewClient e t")
    case (Inl err)
    with transport show ?thesis by (simp add: main_client_fails)
  next
    case client: (Inr c)
    show ?thesis
    proof (cases "ListTools e c")
      case (Inl err)
      with transport client show ?thesis by (simp add: main_list_fails)
    next
      case (Inr r)
      with transport client show ?thesis by (simp add: main_success_calls)
    qed
  qed
qed

lemma ListTools_calls_connected:
  assumes "NewSSEClientTransport e (mcpURL e) = Inr t" and "NewClient e t = Inr c"
  shows "ListTools_calls (trace (main e)) = 1"
proof (cases "ListTools e c")
  case (Inl err)
  with assms show ?thesis by (simp add: main_list_fails)
next
  case (Inr r)
  with assms show ?thesis by (simp add: main_success_calls)
qed

text \<open>
  With the signal: the loop runs to its end when no write of it meets a broken pipe,
  and stops at the first one that does; a run in which no pipe is ever broken is the
  run described above.
\<close>

lemma Printf_length:
  "length (events (Logger_Printf e l msg s)) = Suc (length (events s))"
  by (simp add: Logger_Printf_def Logger_output_def Let_def)

lemma print_tools_sig_alive:
  "\<forall>i<length ts. \<not> raises_SIGPIPE epipe e (out l) (length (events s) + i) \<Longrightarrow>
   print_tools_sig epipe e l ts s = (print_tools e l ts s, False)"
proof (induction ts arbitrary: s)
  case Nil
  show ?case by simp
next
  case (Cons tool rest)
  from Cons.prems have first: "\<not> raises_SIGPIPE epipe e (out l) (length (events s))"
    by fastforce
  have later: "\<forall>i<length rest.
      \<not> raises_SIGPIPE epipe e (out l)
          (length (events (Logger_Printf e l (tool_line tool) s)) + i)"
  proof (intro allI impI)
    fix i assume "i < length rest"
    then have "Suc i < length (tool # rest)" by simp
    with Cons.prems have "\<not> raises_SIGPIPE epipe e (out l) (length (events s) + Suc i)"
      by blast
    then show "\<not> raises_SIGPIPE epipe e (out l)
        (length (events (Logger_Printf e l (tool_line tool) s)) + i)"
      by (simp add: Printf_length)
  qed
  show ?case
    using first Cons.IH [OF later] by (simp add: Logger_Printf_sig_def)
qed

lemma print_tools_sig_killed:
  "i < length ts \<Longrightarrow> raises_SIGPIPE epipe e (out l) (length (events s) + i) \<Longrightarrow>
   \<forall>j<i. \<not> raises_SIGPIPE epipe e (out l) (length (events s) + j) \<Longrightarrow>
   print_tools_sig epipe e l ts s = (print_tools e l (take (Suc i) ts) s, True)"
proof (induction ts arbitrary: s i)
  case Nil
  then show ?case by simp
next
  case (Cons tool rest)
  show ?case
  proof (cases i)
    case 0
    with Cons.prems show ?thesis by (simp add: Logger_Printf_sig_def)
  next
    case (Suc k)
    let ?s = "Logger_Printf e l (tool_line tool) s"
    from Cons.prems Suc have first: "\<not> raises_SIGPIPE epipe e (out l) (length (events s))"
      by fastforce
    from Cons.prems Suc have k: "k < length rest" by simp
    from Cons.prems Suc have hit: "raises_SIGPIPE epipe e (out l) (length (events ?s) + k)"
      by (simp add: Printf_length)
    have before: "\<forall>j<k. \<not> raises_SIGPIPE epipe e (out l) (length (events ?s) + j)"
    proof (intro allI impI)
      fix j assume "j < k"
      then have "Suc j < i" using Suc by simp
      with Cons.prems have "\<not> raises_SIGPIPE epipe e (out l) (length (events s) + Suc j)"
        by blast
      then show "\<not> raises_SIGPIPE epipe e (out l) (length (events ?s) + j)"
        by (simp add: Printf_length)
    qed
    show ?thesis
      using first Suc Cons.IH [OF k hit before] by (simp add: Logger_Printf_sig_def)
  qed
qed

lemma std_Printf_sig:
  "Logger_Printf_sig epipe e std msg s =
     (s\<lparr>events := events s @
         [Wrote Stderr (terminated (now e (length (events s)) @ msg))
            (Write e Stderr (length (events s)))]\<rparr>,
      raises_SIGPIPE epipe e Stderr (length (events s)))"
  by (simp add: Logger_Printf_sig_def Logger_Printf_def std_output) (simp add: std_def log_New_def)

lemma main_body_sig_success:
  assumes "NewSSEClientTransport e (mcpURL e) = Inr t" and "NewClient e t = Inr c"
    and "ListTools e c = Inr r" and "\<not> raises_SIGPIPE epipe e Stderr 0"
  shows "main_body_sig epipe e initial =
    (case print_tools_sig epipe e (log_New Stdout [] 0) (Tools r)
            \<lparr>events =
               [Wrote Stderr (terminated (now e 0 @ ''Connecting to MCP server: '' @ mcpURL e))
                  (Write e Stderr 0),
                Called_NewSSEClientTransport (mcpURL e),
                Called_NewClient t,
                Called_ListTools c],
             deferred = [c]\<rparr> of
       (s6, True) \<Rightarrow> (s6, Killed)
     | (s6, False) \<Rightarrow> (s6, Returned))"
  using assms
  by (simp add: main_body_sig_def Let_def std_Printf_sig call_def initial_def defer_Close_def)

lemma main_sig_alive:
  assumes "NewSSEClientTransport e (mcpURL e) = Inr t" and "NewClient e t = Inr c"
    and "ListTools e c = Inr r" and "\<not> raises_SIGPIPE epipe e Stderr 0"
    and "\<forall>i<length (Tools r). \<not> raises_SIGPIPE epipe e Stdout (4 + i)"
  shows "main_sig epipe e = \<lparr>calls = trace (main e), ending = Exited 0\<rparr>"
proof -
  let ?s5 = "\<lparr>events =
               [Wrote Stderr (terminated (now e 0 @ ''Connecting to MCP server: '' @ mcpURL e))
                  (Write e Stderr 0),
                Called_NewSSEClientTransport (mcpURL e),
                Called_NewClient t,
                Called_ListTools c],
             deferred = [c]\<rparr>"
  have "\<forall>i<length (Tools r).
      \<not> raises_SIGPIPE epipe e (out (log_New Stdout [] 0)) (length (events ?s5) + i)"
    using assms(5) by (simp add: log_New_def eval_nat_numeral)
  then have "print_tools_sig epipe e (log_New Stdout [] 0) (Tools r) ?s5 =
      (print_tools e (log_New Stdout [] 0) (Tools r) ?s5, False)"
    by (rule print_tools_sig_alive)
  then show ?thesis
    by (simp add: main_sig_def main_body_sig_success [OF assms(1-4)]
        main_success [OF assms(1-3)] print_tools_deferred call_def)
qed

lemma main_sig_killed:
  assumes "NewSSEClientTransport e (mcpURL e) = Inr t" and "NewClient e t = Inr c"
    and "ListTools e c = Inr r" and "\<not> raises_SIGPIPE epipe e Stderr 0"
    and "i < length (Tools r)" and "raises_SIGPIPE epipe e Stdout (4 + i)"
    and "\<forall>j<i. \<not> raises_SIGPIPE epipe e Stdout (4 + j)"
  shows "main_sig epipe e =
    \<lparr>calls = events (print_tools e (log_New Stdout [] 0) (take (Suc i) (Tools r))
               \<lparr>events =
                  [Wrote Stderr (terminated (now e 0 @ ''Connecting to MCP server: '' @ mcpURL e))
                     (Write e Stderr 0),
                   Called_NewSSEClientTransport (mcpURL e),
                   Called_NewClient t,
                   Called_ListTools c],
                deferred = [c]\<rparr>),
      ending = Killed_by_SIGPIPE\<rparr>"
proof -
  let ?s5 = "\<lparr>events =
               [Wrote Stderr (terminated (now e 0 @ ''Connecting to MCP server: '' @ mcpURL e))
                  (Write e Stderr 0),
                Called_NewSSEClientTransport (mcpURL e),
                Called_NewClient t,
                Called_ListTools c],
             deferred = [c]\<rparr>"
  have hit: "raises_SIGPIPE epipe e (out (log_New Stdout [] 0)) (length (events ?s5) + i)"
    using assms(6) by (simp add: log_New_def eval_nat_numeral)
  have before: "\<forall>j<i.
      \<not> raises_SIGPIPE epipe e (out (log_New Stdout [] 0)) (length (events ?s5) + j)"
    using assms(7) by (simp add: log_New_def eval_nat_numeral)
  have "print_tools_sig epipe e (log_New Stdout [] 0) (Tools r) ?s5 =
      (print_tools e (log_New Stdout [] 0) (take (Suc i) (Tools r)) ?s5, True)"
    using assms(5) hit before by (rule print_tools_sig_killed)
  then show ?thesis
    by (simp add: main_sig_def main_body_sig_success [OF assms(1-4)])
qed

lemma main_sig_without_signal:
  assumes "\<forall>w moment. \<not> epipe w moment"
  shows "main_sig epipe e = \<lparr>calls = trace (main e), ending = Exited (exit_code (main e))\<rparr>"
proof -
  have quiet: "\<not> raises_SIGPIPE epipe e w moment" for w moment
    using assms by (simp add: raises_SIGPIPE_def)
  show ?thesis
  proof (cases "NewSSEClientTransport e (mcpURL e)")
    case (Inl err)
    then show ?thesis
      by (simp add: main_sig_def main_body_sig_def log_Fatalf_sig_def std_Printf_sig quiet
          Let_def call_def initial_def main_transport_fails eval_nat_numeral)
  next
    case transport: (Inr t)
    show ?thesis
    proof (cases "NewClient e t")
      case (Inl err)
      with transport show ?thesis
        by (simp add: main_sig_def main_body_sig_def log_Fatalf_sig_def std_Printf_sig quiet
            Let_def call_def initial_def main_client_fails eval_nat_numeral)
    next
      case client: (Inr c)
      show ?thesis
      proof (cases "ListTools e c")
        case (Inl err)
        with transport client show ?thesis
          by (simp add: main_sig_def main_body_sig_def log_Fatalf_sig_def std_Printf_sig quiet
              Let_def call_def initial_def defer_Close_def main_list_fails eval_nat_numeral)
      next
        case (Inr r)
        with transport client show ?thesis
          using main_sig_alive [of e t c r epipe]
          by (simp add: quiet main_success_calls)
      qed
    qed
  qed
qed

section \<open>The claims\<close>

subsection \<open>C1: the connection on the exit paths\<close>

text \<open>
  C1 says that every run that creates the client calls \<^verbatim>\<open>Close\<close> exactly once before
  the process exits, also when \<^verbatim>\<open>ListTools\<close> fails. The program defers the call, but
  leaves through \<^verbatim>\<open>log.Fatalf\<close>, that is \<^verbatim>\<open>os.Exit(1)\<close>, which runs no deferred
  call: in every run in which the transport and the client are created and
  \<^verbatim>\<open>ListTools\<close> returns an error, \<^verbatim>\<open>Close\<close> is never called and the process exits
  with code 1.
\<close>

theorem C1_list_failure_skips_Close:
  assumes "NewSSEClientTransport e (mcpURL e) = Inr t" and "NewClient e t = Inr c"
    and "ListTools e c = Inl err"
  shows "Close_calls (trace (main e)) = 0 \<and> exit_code (main e) = 1"
  by (simp add: main_list_fails [OF assms])

text \<open>The run in which the server drops the connection during the listing.\<close>

theorem C1_list_error_run:
  "NewSSEClientTransport list_error_run (mcpURL list_error_run) = Inr (SSEClientTransport 0) \<and>
   NewClient list_error_run (SSEClientTransport 0) = Inr (Client 0) \<and>
   ListTools list_error_run (Client 0) = Inl ''EOF'' \<and>
   Close_calls (trace (main list_error_run)) = 0 \<and> exit_code (main list_error_run) = 1"
proof -
  have t: "NewSSEClientTransport list_error_run (mcpURL list_error_run) = Inr (SSEClientTransport 0)"
    by (simp add: list_error_run_def stub_def)
  have c: "NewClient list_error_run (SSEClientTransport 0) = Inr (Client 0)"
    by (simp add: list_error_run_def stub_def)
  have l: "ListTools list_error_run (Client 0) = Inl ''EOF''"
    by (simp add: list_error_run_def stub_def)
  show ?thesis
    using t c l C1_list_failure_skips_Close [OF t c l] by simp
qed

subsection \<open>C2: the two-descriptor example\<close>

text \<open>
  C2: when the server answers with the descriptors (A, d1) and (B, d2), exactly two
  buffers are written on standard output, \<^verbatim>\<open>Name: A Description: d1\<close> and
  \<^verbatim>\<open>Name: B Description: d2\<close>, each ended by one newline, with no timestamp or
  prefix before and nothing after; when standard output takes the writes, these two
  lines are its whole content.
\<close>

theorem C2_two_descriptors:
  assumes "NewSSEClientTransport e (mcpURL e) = Inr t" and "NewClient e t = Inr c"
    and "ListTools e c = Inr \<lparr>Tools = [\<lparr>Name = ''A'', Description = ''d1''\<rparr>,
                                       \<lparr>Name = ''B'', Description = ''d2''\<rparr>]\<rparr>"
  shows "writes_to Stdout (trace (main e)) =
           [''Name: A Description: d1\<newline>'', ''Name: B Description: d2\<newline>''] \<and>
         ((\<forall>moment. Write e Stdout moment = None) \<longrightarrow>
            content Stdout (trace (main e)) =
              ''Name: A Description: d1\<newline>Name: B Description: d2\<newline>'')"
  by (simp add: main_success_stdout [OF assms] main_success_content [OF assms]
      tool_line_def newline_def)

text \<open>The run against a server that has exactly these two tools.\<close>

theorem C2_two_tools_run:
  "NewSSEClientTransport two_tools_run (mcpURL two_tools_run) = Inr (SSEClientTransport 0) \<and>
   NewClient two_tools_run (SSEClientTransport 0) = Inr (Client 0) \<and>
   ListTools two_tools_run (Client 0) =
     Inr \<lparr>Tools = [\<lparr>Name = ''A'', Description = ''d1''\<rparr>, \<lparr>Name = ''B'', Description = ''d2''\<rparr>]\<rparr> \<and>
   (\<forall>moment. Write two_tools_run Stdout moment = None) \<and>
   writes_to Stdout (trace (main two_tools_run)) =
     [''Name: A Description: d1\<newline>'', ''Name: B Description: d2\<newline>''] \<and>
   content Stdout (trace (main two_tools_run)) =
     ''Name: A Description: d1\<newline>Name: B Description: d2\<newline>''"
proof -
  have t: "NewSSEClientTransport two_tools_run (mcpURL two_tools_run) = Inr (SSEClientTransport 0)"
    by (simp add: two_tools_run_def stub_def)
  have c: "NewClient two_tools_run (SSEClientTransport 0) = Inr (Client 0)"
    by (simp add: two_tools_run_def stub_def)
  have l: "ListTools two_tools_run (Client 0) =
     Inr \<lparr>Tools = [\<lparr>Name = ''A'', Description = ''d1''\<rparr>, \<lparr>Name = ''B'', Description = ''d2''\<rparr>]\<rparr>"
    by (simp add: two_tools_run_def stub_def two_tools_def)
  have w: "\<forall>moment. Write two_tools_run Stdout moment = None"
    by (simp add: two_tools_run_def stub_def writable_def)
  show ?thesis
    using t c l w C2_two_descriptors [OF t c l] by simp
qed

subsection \<open>C3: exit code and error message\<close>

text \<open>
  C3: the process exits with code 0 when the transport, the client and the listing
  succeed (whatever the streams answer to the writes), and with a code other than 0
  when one of the three returns an error; then the last thing the process does is to
  write a record on the error stream that names the phase that failed and carries the
  text of the error.
\<close>

theorem C3_exit_code_and_message:
  "(NewSSEClientTransport e (mcpURL e) = Inr t \<and> NewClient e t = Inr c \<and> ListTools e c = Inr r \<longrightarrow>
      exit_code (main e) = 0) \<and>
   (NewSSEClientTransport e (mcpURL e) = Inl err \<longrightarrow>
      exit_code (main e) \<noteq> 0 \<and>
      last (trace (main e)) =
        Wrote Stderr (terminated (now e 2 @ ''Failed to create transport client: '' @ err))
          (Write e Stderr 2)) \<and>
   (NewSSEClientTransport e (mcpURL e) = Inr t \<and> NewClient e t = Inl err \<longrightarrow>
      exit_code (main e) \<noteq> 0 \<and>
      last (trace (main e)) =
        Wrote Stderr (terminated (now e 3 @ ''Failed to create MCP client: '' @ err))
          (Write e Stderr 3)) \<and>
   (NewSSEClientTransport e (mcpURL e) = Inr t \<and> NewClient e t = Inr c \<and> ListTools e c = Inl err \<longrightarrow>
      exit_code (main e) \<noteq> 0 \<and>
      last (trace (main e)) =
        Wrote Stderr (terminated (now e 4 @ ''Failed to list tools: '' @ err))
          (Write e Stderr 4))"
  by (simp add: main_success_calls main_transport_fails main_client_fails main_list_fails)

text \<open>
  One run for each way to go, with the records as they reach the error stream.
\<close>

theorem C3_four_runs:
  "(NewSSEClientTransport two_tools_run (mcpURL two_tools_run) = Inr (SSEClientTransport 0) \<and>
    NewClient two_tools_run (SSEClientTransport 0) = Inr (Client 0) \<and>
    ListTools two_tools_run (Client 0) = Inr two_tools \<and>
    exit_code (main two_tools_run) = 0) \<and>
   (NewSSEClientTransport bad_url_run (mcpURL bad_url_run) = Inl ''invalid URL'' \<and>
    exit_code (main bad_url_run) \<noteq> 0 \<and>
    last (trace (main bad_url_run)) =
      Wrote Stderr
        ''2025/06/01 12:00:00 Failed to create transport client: invalid URL\<newline>'' None) \<and>
   (NewSSEClientTransport refused_run (mcpURL refused_run) = Inr (SSEClientTransport 0) \<and>
    NewClient refused_run (SSEClientTransport 0) = Inl ''connection refused'' \<and>
    exit_code (main refused_run) \<noteq> 0 \<and>
    last (trace (main refused_run)) =
      Wrote Stderr
        ''2025/06/01 12:00:00 Failed to create MCP client: connection refused\<newline>'' None) \<and>
   (NewSSEClientTransport list_error_run (mcpURL list_error_run) = Inr (SSEClientTransport 0) \<and>
    NewClient list_error_run (SSEClientTransport 0) = Inr (Client 0) \<and>
    ListTools list_error_run (Client 0) = Inl ''EOF'' \<and>
    exit_code (main list_error_run) \<noteq> 0 \<and>
    last (trace (main list_error_run)) =
      Wrote Stderr ''2025/06/01 12:00:00 Failed to list tools: EOF\<newline>'' None)"
  using C3_exit_code_and_message
      [of two_tools_run "SSEClientTransport 0" "Client 0" two_tools "[]"]
    C3_exit_code_and_message
      [of bad_url_run "SSEClientTransport 0" "Client 0" two_tools "''invalid URL''"]
    C3_exit_code_and_message
      [of refused_run "SSEClientTransport 0" "Client 0" two_tools "''connection refused''"]
    C3_exit_code_and_message
      [of list_error_run "SSEClientTransport 0" "Client 0" two_tools "''EOF''"]
  by (simp add: two_tools_run_def bad_url_run_def refused_run_def list_error_run_def stub_def
      writable_def terminated_def newline_def)

subsection \<open>C4: no listing without a connection\<close>

text \<open>
  C4: when the transport or the client cannot be created, \<^verbatim>\<open>ListTools\<close> is never
  called.
\<close>

theorem C4_no_listing_without_connection:
  "(NewSSEClientTransport e (mcpURL e) = Inl err \<longrightarrow> ListTools_calls (trace (main e)) = 0) \<and>
   (NewSSEClientTransport e (mcpURL e) = Inr t \<and> NewClient e t = Inl err \<longrightarrow>
      ListTools_calls (trace (main e)) = 0)"
  by (simp add: main_transport_fails main_client_fails)

text \<open>
  A URL the transport rejects, and a server that refuses the connection.
\<close>

theorem C4_failed_connections:
  "(NewSSEClientTransport bad_url_run (mcpURL bad_url_run) = Inl ''invalid URL'' \<and>
    ListTools_calls (trace (main bad_url_run)) = 0) \<and>
   (NewSSEClientTransport refused_run (mcpURL refused_run) = Inr (SSEClientTransport 0) \<and>
    NewClient refused_run (SSEClientTransport 0) = Inl ''connection refused'' \<and>
    ListTools_calls (trace (main refused_run)) = 0)"
  using C4_no_listing_without_connection [of bad_url_run "''invalid URL''" "SSEClientTransport 0"]
    C4_no_listing_without_connection [of refused_run "''connection refused''" "SSEClientTransport 0"]
  by (simp add: bad_url_run_def refused_run_def stub_def)

subsection \<open>C5: errors of the output stream\<close>

text \<open>
  C5 says that an error of the output stream during printing ends the process. It
  does not: \<^verbatim>\<open>logger.Printf\<close> drops the error that \<^verbatim>\<open>Write\<close> returns. In the run
  below standard output takes no byte and answers each write with an error that is
  not a broken pipe (a full disk); both records are still handed to it, the client is
  closed and the exit code is 0.
\<close>

theorem C5_stdout_error_not_fatal:
  "main full_disk_run =
     \<lparr>trace =
        [Wrote Stderr
           ''2025/06/01 12:00:00 Connecting to MCP server: https://mcp-td1.swormlab.com/sse\<newline>''
           None,
         Called_NewSSEClientTransport ''https://mcp-td1.swormlab.com/sse'',
         Called_NewClient (SSEClientTransport 0),
         Called_ListTools (Client 0),
         Wrote Stdout ''Name: A Description: d1\<newline>'' (Some 0),
         Wrote Stdout ''Name: B Description: d2\<newline>'' (Some 0),
         Called_Close (Client 0)],
      exit_code = 0\<rparr>"
  by (simp add: main_def main_body_def Let_def log_Printf_def Logger_Printf_def Logger_output_def
      std_def log_New_def LstdFlags_def Ldate_def Ltime_def Lmicroseconds_def formatHeader_def
      call_def defer_Close_def initial_def full_disk_run_def stub_def stdout_full_def
      two_tools_def mcpURL_def default_url_def terminated_def newline_def tool_line_def)

text \<open>
  C5, as amended: the output formatter has no failure modes of its own other than
  output-stream errors, and of these only a broken pipe is fatal. In a run that reaches
  the print loop: when no write of the loop fails with \<^verbatim>\<open>EPIPE\<close>, whatever other
  errors the writes return, one record per descriptor is handed to standard output in
  order, the client is closed once and the process exits with code 0; when the write
  of a record fails with \<^verbatim>\<open>EPIPE\<close>, the first such write kills the process by
  \<^verbatim>\<open>SIGPIPE\<close>: the records up to that one have been handed over, no later one is, and
  the client is not closed.
\<close>

theorem C5_only_a_broken_pipe_is_fatal:
  assumes "NewSSEClientTransport e (mcpURL e) = Inr t" and "NewClient e t = Inr c"
    and "ListTools e c = Inr r" and "\<not> raises_SIGPIPE epipe e Stderr 0"
  shows
    "((\<forall>i<length (Tools r). \<not> raises_SIGPIPE epipe e Stdout (4 + i)) \<longrightarrow>
        ending (main_sig epipe e) = Exited 0 \<and>
        writes_to Stdout (calls (main_sig epipe e)) = map tool_line (Tools r) \<and>
        Close_calls (calls (main_sig epipe e)) = 1) \<and>
     (i < length (Tools r) \<and> raises_SIGPIPE epipe e Stdout (4 + i) \<and>
      (\<forall>j<i. \<not> raises_SIGPIPE epipe e Stdout (4 + j)) \<longrightarrow>
        ending (main_sig epipe e) = Killed_by_SIGPIPE \<and>
        writes_to Stdout (calls (main_sig epipe e)) = map tool_line (take (Suc i) (Tools r)) \<and>
        Close_calls (calls (main_sig epipe e)) = 0)"
proof (intro conjI impI)
  assume alive: "\<forall>i<length (Tools r). \<not> raises_SIGPIPE epipe e Stdout (4 + i)"
  note run = main_sig_alive [OF assms alive]
  show "ending (main_sig epipe e) = Exited 0"
    by (simp add: run)
  show "writes_to Stdout (calls (main_sig epipe e)) = map tool_line (Tools r)"
    by (simp add: run main_success_stdout [OF assms(1-3)])
  show "Close_calls (calls (main_sig epipe e)) = 1"
    by (simp add: run main_success_calls [OF assms(1-3)])
next
  assume dead: "i < length (Tools r) \<and> raises_SIGPIPE epipe e Stdout (4 + i) \<and>
      (\<forall>j<i. \<not> raises_SIGPIPE epipe e Stdout (4 + j))"
  then have a: "i < length (Tools r)" and b: "raises_SIGPIPE epipe e Stdout (4 + i)"
    and c: "\<forall>j<i. \<not> raises_SIGPIPE epipe e Stdout (4 + j)"
    by blast+
  note run = main_sig_killed [OF assms a b c]
  show "ending (main_sig epipe e) = Killed_by_SIGPIPE"
    by (simp add: run)
  show "writes_to Stdout (calls (main_sig epipe e)) = map tool_line (take (Suc i) (Tools r))"
    by (simp only: run fate.simps print_tools_stdout) simp
  show "Close_calls (calls (main_sig epipe e)) = 0"
    by (simp only: run fate.simps print_tools_Close_calls) simp
qed

text \<open>
  The two-tool server twice, with a standard output that answers every write with an
  error: on a full disk the process exits with code 0 after both records; on a pipe
  whose reader has gone it is killed at the first record.
\<close>

theorem C5_full_disk_and_closed_pipe:
  "NewSSEClientTransport full_disk_run (mcpURL full_disk_run) = Inr (SSEClientTransport 0) \<and>
   NewClient full_disk_run (SSEClientTransport 0) = Inr (Client 0) \<and>
   ListTools full_disk_run (Client 0) = Inr two_tools \<and>
   Write full_disk_run Stdout 4 = Some 0 \<and> Write full_disk_run Stdout 5 = Some 0 \<and>
   \<not> raises_SIGPIPE no_pipe_broken full_disk_run Stderr 0 \<and>
   \<not> raises_SIGPIPE no_pipe_broken full_disk_run Stdout 4 \<and>
   \<not> raises_SIGPIPE no_pipe_broken full_disk_run Stdout 5 \<and>
   ending (main_sig no_pipe_broken full_disk_run) = Exited 0 \<and>
   writes_to Stdout (calls (main_sig no_pipe_broken full_disk_run)) =
     [''Name: A Description: d1\<newline>'', ''Name: B Description: d2\<newline>''] \<and>
   Close_calls (calls (main_sig no_pipe_broken full_disk_run)) = 1 \<and>
   \<not> raises_SIGPIPE stdout_pipe_broken full_disk_run Stderr 0 \<and>
   raises_SIGPIPE stdout_pipe_broken full_disk_run Stdout 4 \<and>
   ending (main_sig stdout_pipe_broken full_disk_run) = Killed_by_SIGPIPE \<and>
   writes_to Stdout (calls (main_sig stdout_pipe_broken full_disk_run)) =
     [''Name: A Description: d1\<newline>''] \<and>
   Close_calls (calls (main_sig stdout_pipe_broken full_disk_run)) = 0"
proof -
  have t: "NewSSEClientTransport full_disk_run (mcpURL full_disk_run) = Inr (SSEClientTransport 0)"
    by (simp add: full_disk_run_def stub_def)
  have c: "NewClient full_disk_run (SSEClientTransport 0) = Inr (Client 0)"
    by (simp add: full_disk_run_def stub_def)
  have l: "ListTools full_disk_run (Client 0) = Inr two_tools"
    by (simp add: full_disk_run_def stub_def)
  have w: "Write full_disk_run Stdout 4 = Some 0 \<and> Write full_disk_run Stdout 5 = Some 0"
    by (simp add: full_disk_run_def stub_def stdout_full_def)
  have n0: "\<not> raises_SIGPIPE no_pipe_broken full_disk_run Stderr 0"
    by (simp add: raises_SIGPIPE_def no_pipe_broken_def)
  have n: "\<not> raises_SIGPIPE no_pipe_broken full_disk_run Stdout k" for k
    by (simp add: raises_SIGPIPE_def no_pipe_broken_def)
  have b0: "\<not> raises_SIGPIPE stdout_pipe_broken full_disk_run Stderr 0"
    by (simp add: raises_SIGPIPE_def stdout_pipe_broken_def)
  have b: "raises_SIGPIPE stdout_pipe_broken full_disk_run Stdout 4"
    by (simp add: raises_SIGPIPE_def stdout_pipe_broken_def full_disk_run_def stub_def
        stdout_full_def)
  show ?thesis
    using t c l w n0 n b0 b
      C5_only_a_broken_pipe_is_fatal [OF t c l n0, of 0]
      C5_only_a_broken_pipe_is_fatal [OF t c l b0, of 0]
    by (simp add: two_tools_def tool_line_def newline_def)
qed

subsection \<open>C6: one record per descriptor, in order\<close>




subsection \<open>C7: one listing request\<close>

text \<open>
  C7: no run calls \<^verbatim>\<open>ListTools\<close> more than once, and a run that has created the
  client calls it exactly once, whether the call succeeds or fails: there is no retry
  and nothing is answered from a cache.
\<close>

theorem C7_at_most_one_listing:
  "ListTools_calls (trace (main e)) \<le> 1 \<and>
   (NewSSEClientTransport e (mcpURL e) = Inr t \<and> NewClient e t = Inr c \<longrightarrow>
      ListTools_calls (trace (main e)) = 1)"
  using ListTools_calls_le_1 [of e] ListTools_calls_connected [of e t c] by blast

text \<open>
  The run in which the listing fails: one request, not repeated.
\<close>

theorem C7_no_retry:
  "NewSSEClientTransport list_error_run (mcpURL list_error_run) = Inr (SSEClientTransport 0) \<and>
   NewClient list_error_run (SSEClientTransport 0) = Inr (Client 0) \<and>
   ListTools list_error_run (Client 0) = Inl ''EOF'' \<and>
   ListTools_calls (trace (main list_error_run)) = 1"
  using C7_at_most_one_listing [of list_error_run "SSEClientTransport 0" "Client 0"]
  by (simp add: list_error_run_def stub_def)

subsection \<open>C8: what goes to which stream\<close>

text \<open>
  C8: on a successful run the buffers written on standard output are the tool records
  and nothing else, and the startup message with the URL is the one record on the
  error stream; on a failing run nothing is written on standard output, and the
  startup message and the error message are the two records on the error stream.
\<close>

theorem C8_stdout_has_only_tool_lines:
  "(NewSSEClientTransport e (mcpURL e) = Inr t \<and> NewClient e t = Inr c \<and> ListTools e c = Inr r \<longrightarrow>
      writes_to Stdout (trace (main e)) = map tool_line (Tools r) \<and>
      writes_to Stderr (trace (main e)) =
        [terminated (now e 0 @ ''Connecting to MCP server: '' @ mcpURL e)]) \<and>
   (NewSSEClientTransport e (mcpURL e) = Inl err \<longrightarrow>
      writes_to Stdout (trace (main e)) = [] \<and>
      writes_to Stderr (trace (main e)) =
        [terminated (now e 0 @ ''Connecting to MCP server: '' @ mcpURL e),
         terminated (now e 2 @ ''Failed to create transport client: '' @ err)]) \<and>
   (NewSSEClientTransport e (mcpURL e) = Inr t \<and> NewClient e t = Inl err \<longrightarrow>
      writes_to Stdout (trace (main e)) = [] \<and>
      writes_to Stderr (trace (main e)) =
        [terminated (now e 0 @ ''Connecting to MCP server: '' @ mcpURL e),
         terminated (now e 3 @ ''Failed to create MCP client: '' @ err)]) \<and>
   (NewSSEClientTransport e (mcpURL e) = Inr t \<and> NewClient e t = Inr c \<and> ListTools e c = Inl err \<longrightarrow>
      writes_to Stdout (trace (main e)) = [] \<and>
      writes_to Stderr (trace (main e)) =
        [terminated (now e 0 @ ''Connecting to MCP server: '' @ mcpURL e),
         terminated (now e 4 @ ''Failed to list tools: '' @ err)])"
  by (simp add: main_success_stdout main_success_stderr main_transport_fails main_client_fails
      main_list_fails)

text \<open>
  The four runs, stream by stream.
\<close>

theorem C8_four_runs:
  "(NewSSEClientTransport two_tools_run (mcpURL two_tools_run) = Inr (SSEClientTransport 0) \<and>
    NewClient two_tools_run (SSEClientTransport 0) = Inr (Client 0) \<and>
    ListTools two_tools_run (Client 0) = Inr two_tools \<and>
    writes_to Stdout (trace (main two_tools_run)) =
      [''Name: A Description: d1\<newline>'', ''Name: B Description: d2\<newline>''] \<and>
    writes_to Stderr (trace (main two_tools_run)) =
      [''2025/06/01 12:00:00 Connecting to MCP server: https://mcp-td1.swormlab.com/sse\<newline>'']) \<and>
   (NewSSEClientTransport bad_url_run (mcpURL bad_url_run) = Inl ''invalid URL'' \<and>
    writes_to Stdout (trace (main bad_url_run)) = [] \<and>
    writes_to Stderr (trace (main bad_url_run)) =
      [''2025/06/01 12:00:00 Connecting to MCP server: https://mcp-td1.swormlab.com/sse\<newline>'',
       ''2025/06/01 12:00:00 Failed to create transport client: invalid URL\<newline>'']) \<and>
   (NewSSEClientTransport refused_run (mcpURL refused_run) = Inr (SSEClientTransport 0) \<and>
    NewClient refused_run (SSEClientTransport 0) = Inl ''connection refused'' \<and>
    writes_to Stdout (trace (main refused_run)) = [] \<and>
    writes_to Stderr (trace (main refused_run)) =
      [''2025/06/01 12:00:00 Connecting to MCP server: https://mcp-td1.swormlab.com/sse\<newline>'',
       ''2025/06/01 12:00:00 Failed to create MCP client: connection refused\<newline>'']) \<and>
   (NewSSEClientTransport list_error_run (mcpURL list_error_run) = Inr (SSEClientTransport 0) \<and>
    NewClient list_error_run (SSEClientTransport 0) = Inr (Client 0) \<and>
    ListTools list_error_run (Client 0) = Inl ''EOF'' \<and>
    writes_to Stdout (trace (main list_error_run)) = [] \<and>
    writes_to Stderr (trace (main list_error_run)) =
      [''2025/06/01 12:00:00 Connecting to MCP server: https://mcp-td1.swormlab.com/sse\<newline>'',
       ''2025/06/01 12:00:00 Failed to list tools: EOF\<newline>''])"
  using C8_stdout_has_only_tool_lines
      [of two_tools_run "SSEClientTransport 0" "Client 0" two_tools "[]"]
    C8_stdout_has_only_tool_lines
      [of bad_url_run "SSEClientTransport 0" "Client 0" two_tools "''invalid URL''"]
    C8_stdout_has_only_tool_lines
      [of refused_run "SSEClientTransport 0" "Client 0" two_tools "''connection refused''"]
    C8_stdout_has_only_tool_lines
      [of list_error_run "SSEClientTransport 0" "Client 0" two_tools "''EOF''"]
  by (simp add: two_tools_run_def bad_url_run_def refused_run_def list_error_run_def stub_def
      two_tools_def tool_line_def mcpURL_def default_url_def terminated_def newline_def)

subsection \<open>C9: the exit code of a failure\<close>



subsection \<open>C10: the empty list\<close>

text \<open>
  C10: when \<^verbatim>\<open>ListTools\<close> succeeds with no descriptor, nothing is written on standard
  output, which stays empty, and the exit code is 0.
\<close>

theorem C10_empty_list:
  assumes "NewSSEClientTransport e (mcpURL e) = Inr t" and "NewClient e t = Inr c"
    and "ListTools e c = Inr r" and "Tools r = []"
  shows "writes_to Stdout (trace (main e)) = [] \<and> content Stdout (trace (main e)) = [] \<and>
         exit_code (main e) = 0"
  using assms(4)
  by (simp add: main_success [OF assms(1-3)])

text \<open>
  The run against a server without tools.
\<close>

theorem C10_no_tools_run:
  "NewSSEClientTransport no_tools_run (mcpURL no_tools_run) = Inr (SSEClientTransport 0) \<and>
   NewClient no_tools_run (SSEClientTransport 0) = Inr (Client 0) \<and>
   ListTools no_tools_run (Client 0) = Inr \<lparr>Tools = []\<rparr> \<and>
   Tools \<lparr>Tools = []\<rparr> = [] \<and>
   writes_to Stdout (trace (main no_tools_run)) = [] \<and>
   content Stdout (trace (main no_tools_run)) = [] \<and>
   exit_code (main no_tools_run) = 0"
proof -
  have t: "NewSSEClientTransport no_tools_run (mcpURL no_tools_run) = Inr (SSEClientTransport 0)"
    by (simp add: no_tools_run_def stub_def)
  have c: "NewClient no_tools_run (SSEClientTransport 0) = Inr (Client 0)"
    by (simp add: no_tools_run_def stub_def)
  have l: "ListTools no_tools_run (Client 0) = Inr \<lparr>Tools = []\<rparr>"
    by (simp add: no_tools_run_def stub_def)
  have n: "Tools \<lparr>Tools = []\<rparr> = []"
    by simp
  show ?thesis
    using t c l C10_empty_list [OF t c l n] by simp
qed

end
